theory Spec2Isabelle
  imports Main
begin

unbundle bit_operations_syntax

section \<open>PCF8574 output module: data model\<close>

text \<open>
  A shallow embedding of \<^verbatim>\<open>mycodo/outputs/pcf8574.py\<close>.

  Python values stored in the state list and in \<^verbatim>\<open>output_state\<close> are \<^verbatim>\<open>None\<close>,
  \<^verbatim>\<open>True\<close> or \<^verbatim>\<open>False\<close>: they are modelled as \<^typ>\<open>bool option\<close>.  Python integers are
  unbounded and are modelled as \<^typ>\<open>int\<close>.
\<close>

datatype py_error = TypeError | IndexError | AssertionError | ValueError | IOError

text \<open>
  Every interaction of the module with its collaborators is recorded, in order, in a
  trace: the lock primitive of the base class, the state file, the bus and the error log.
  Debug log lines are not recorded.
\<close>

datatype event =
    LockAcquire bool
  | LockRelease
  | FileExists bool
  | FileRead
  | FileWrite string
  | FileWriteFailed
  | BusWrite int
  | LogError string
  | LogException py_error

text \<open>
  The environment of one chip: the content of the state file, as the text it decodes to
  (\<open>None\<close> when the file does not exist), the byte held by the chip's register,
  whether the lock can be acquired within the timeout, and whether writing the state
  file, or writing to the bus, raises.

  Writing the state file can raise at two places.  \<open>file_fault_written\<close> is \<open>None\<close>
  when \<^verbatim>\<open>open\<close> itself raises, and \<open>Some n\<close> when the file was opened, and so
  truncated, and a write, the flush or the close raises after \<open>n\<close> characters of the
  new content reached the file.  The field is read only when \<open>file_fault\<close> is set.
\<close>

record world =
  state_file :: "string option"
  register :: int
  lock_free :: bool
  file_fault :: bool
  file_fault_written :: "nat option"
  bus_fault :: bool
  trace :: "event list"

text \<open>
  The fields of \<^verbatim>\<open>OutputModule\<close> that \<^verbatim>\<open>output_switch\<close> and \<^verbatim>\<open>is_on\<close> use.
  \<open>output_setup\<close> is set by \<^verbatim>\<open>setup_output\<close> exactly when the lock file, the state
  file and the chip object were bound.
\<close>

record output_module =
  channel :: "int option"
  output_state :: "bool option"
  output_on_state :: "bool option"
  output_setup :: bool

subsection \<open>Python primitives\<close>

text \<open>Truth value of \<^verbatim>\<open>None\<close>, \<^verbatim>\<open>True\<close>, \<^verbatim>\<open>False\<close>.\<close>

fun truthy :: "bool option \<Rightarrow> bool" where
  "truthy None = False"
| "truthy (Some b) = b"

text \<open>\<^verbatim>\<open>'{}'.format(v)\<close> for the three values.\<close>

fun py_str :: "bool option \<Rightarrow> string" where
  "py_str None = ''None''"
| "py_str (Some True) = ''True''"
| "py_str (Some False) = ''False''"

abbreviation LF :: char where "LF \<equiv> CHR 0x0A"
abbreviation CR :: char where "CR \<equiv> CHR 0x0D"

text \<open>
  Reading a file opened with \<^verbatim>\<open>open(path, 'r')\<close>: the text layer translates
  \<^verbatim>\<open>\r\n\<close> and a lone \<^verbatim>\<open>\r\<close> to \<^verbatim>\<open>\n\<close>.
\<close>

fun universal_newlines :: "string \<Rightarrow> string" where
  "universal_newlines [] = []"
| "universal_newlines [c] = (if c = CR then [LF] else [c])"
| "universal_newlines (c # d # cs) =
     (if c = CR then
        (if d = LF then LF # universal_newlines cs
         else LF # universal_newlines (d # cs))
      else c # universal_newlines (d # cs))"

text \<open>
  \<^verbatim>\<open>for line in f\<close>: every line keeps its terminating newline; a last line without
  one is yielded as it is.  \<open>cur\<close> is the line read so far.
\<close>

fun file_lines :: "string \<Rightarrow> string \<Rightarrow> string list" where
  "file_lines cur [] = (if cur = [] then [] else [cur])"
| "file_lines cur (c # cs) =
     (if c = LF then (cur @ [c]) # file_lines [] cs else file_lines (cur @ [c]) cs)"

text \<open>
  \<^verbatim>\<open>xs[k] = v\<close> on a Python list: a negative index counts from the end, an index out
  of range raises \<^verbatim>\<open>IndexError\<close>.
\<close>

definition list_setitem :: "'a list \<Rightarrow> int \<Rightarrow> 'a \<Rightarrow> py_error + 'a list" where
  "list_setitem xs k v =
     (let n = int (length xs); j = (if k < 0 then n + k else k)
      in if 0 \<le> j \<and> j < n then Inr (xs[nat j := v]) else Inl IndexError)"

section \<open>The chip: \<^verbatim>\<open>PCF8574\<close>\<close>

text \<open>
  The loop of the \<^verbatim>\<open>port\<close> setter, \<^verbatim>\<open>for i, val in enumerate(value)\<close>:
  \<^verbatim>\<open>new_state |= 1 << 7 - i\<close> when \<open>val\<close> is true.  A negative shift count raises
  \<^verbatim>\<open>ValueError\<close> in Python.
\<close>

fun port_loop :: "int \<Rightarrow> bool option list \<Rightarrow> int \<Rightarrow> py_error + int" where
  "port_loop i [] new_state = Inr new_state"
| "port_loop i (val # rest) new_state =
     (if truthy val then
        (if 7 - i < 0 then Inl ValueError
         else port_loop (i + 1) rest (new_state OR push_bit (nat (7 - i)) 1))
      else port_loop (i + 1) rest new_state)"

text \<open>
  \<^verbatim>\<open>self.bus.write_byte(self.address, new_state)\<close>: the call is recorded; it raises when
  the transport fails, and sets the register otherwise.
\<close>

definition write_byte :: "int \<Rightarrow> world \<Rightarrow> py_error option \<times> world" where
  "write_byte b w =
     (let w1 = w\<lparr>trace := trace w @ [BusWrite b]\<rparr>
      in if bus_fault w then (Some IOError, w1) else (None, w1\<lparr>register := b\<rparr>))"

text \<open>The \<^verbatim>\<open>port\<close> setter: \<^verbatim>\<open>self.sensor.port = value\<close>.\<close>

definition port_set :: "bool option list \<Rightarrow> world \<Rightarrow> py_error option \<times> world" where
  "port_set value w =
     (if length value \<noteq> 8 then (Some AssertionError, w)
      else (case port_loop 0 value 0 of
              Inl e \<Rightarrow> (Some e, w)
            | Inr new_state \<Rightarrow> write_byte new_state w))"

section \<open>The state file\<close>

text \<open>The read loop of \<^verbatim>\<open>output_switch\<close>: \<^verbatim>\<open>line[:-1]\<close> is compared with the three tokens,
  and a line that is none of them is skipped.\<close>

fun read_states :: "string list \<Rightarrow> bool option list" where
  "read_states [] = []"
| "read_states (line # rest) =
     (let read_state = butlast line
      in if read_state = ''None'' then None # read_states rest
         else if read_state = ''True'' then Some True # read_states rest
         else if read_state = ''False'' then Some False # read_states rest
         else read_states rest)"

text \<open>The list of states a file content is read as.\<close>

definition decode_states :: "string \<Rightarrow> bool option list" where
  "decode_states content = read_states (file_lines [] (universal_newlines content))"

text \<open>The write loop: \<^verbatim>\<open>f.write('{}\n'.format(write_state))\<close> for every entry.\<close>

fun encode_states :: "bool option list \<Rightarrow> string" where
  "encode_states [] = []"
| "encode_states (write_state # rest) = py_str write_state @ [LF] @ encode_states rest"

text \<open>
  Lines 125 to 140: the list of states is read from the state file when it exists, and is
  eight times \<^verbatim>\<open>None\<close> otherwise.
\<close>

definition load_states :: "world \<Rightarrow> bool option list \<times> world" where
  "load_states w =
     (case state_file w of
        Some content \<Rightarrow>
          (decode_states content, w\<lparr>trace := trace w @ [FileExists True, FileRead]\<rparr>)
      | None \<Rightarrow> (replicate 8 None, w\<lparr>trace := trace w @ [FileExists False]\<rparr>))"

text \<open>
  Lines 163 to 165: \<^verbatim>\<open>open(self.state_file, 'w')\<close> truncates the file, every entry is
  written, and leaving the \<^verbatim>\<open>with\<close> block closes it.  When \<^verbatim>\<open>open\<close> raises the file
  is as it was.  When a later step raises, the file holds what was written until then: a
  prefix of the new content, which may be empty or short of a whole record.
\<close>

definition save_states :: "bool option list \<Rightarrow> world \<Rightarrow> py_error option \<times> world" where
  "save_states list_states w =
     (if file_fault w then
        (case file_fault_written w of
           None \<Rightarrow> (Some IOError, w\<lparr>trace := trace w @ [FileWriteFailed]\<rparr>)
         | Some n \<Rightarrow>
             (Some IOError,
              w\<lparr>state_file := Some (take n (encode_states list_states)),
                trace := trace w @
                  [FileWrite (take n (encode_states list_states)), FileWriteFailed]\<rparr>))
      else (None, w\<lparr>state_file := Some (encode_states list_states),
                     trace := trace w @ [FileWrite (encode_states list_states)]\<rparr>))"

section \<open>The channel controller: \<^verbatim>\<open>OutputModule\<close>\<close>

definition log_error :: "string \<Rightarrow> world \<Rightarrow> world" where
  "log_error msg w = w\<lparr>trace := trace w @ [LogError msg]\<rparr>"

text \<open>
  Lines 157 to 168, run once \<^verbatim>\<open>self.output_state\<close> has been assigned: the channel's
  slot is overwritten, the list is written to the state file, and then sent to the chip.
  The first component of the result is the exception raised, if any.
\<close>

definition commit_states ::
  "int \<Rightarrow> bool option list \<Rightarrow> output_module \<Rightarrow> world
     \<Rightarrow> py_error option \<times> output_module \<times> world" where
  "commit_states ch list_states m w =
     (case list_setitem list_states (ch - 1) (output_state m) of
        Inl e \<Rightarrow> (Some e, m, w)
      | Inr list_states' \<Rightarrow>
          (case save_states list_states' w of
             (Some e, w1) \<Rightarrow> (Some e, m, w1)
           | (None, w1) \<Rightarrow>
               (case port_set list_states' w1 of (r, w2) \<Rightarrow> (r, m, w2))))"

text \<open>
  The body of the inner \<^verbatim>\<open>try\<close> of \<^verbatim>\<open>output_switch\<close> (lines 124 to 168), run with
  the lock held.  Without a state file path, \<^verbatim>\<open>os.path.exists(None)\<close> raises
  \<^verbatim>\<open>TypeError\<close>.
\<close>

definition switch_body ::
  "string \<Rightarrow> int \<Rightarrow> output_module \<Rightarrow> world
     \<Rightarrow> py_error option \<times> output_module \<times> world" where
  "switch_body state ch m w =
     (if \<not> output_setup m then (Some TypeError, m, w)
      else
        (case load_states w of (list_states, w1) \<Rightarrow>
          if length list_states \<noteq> 8 then
            (None, m, log_error ''State list does ot contain 8 elements'' w1)
          else if state = ''on'' then
            commit_states ch list_states (m\<lparr>output_state := output_on_state m\<rparr>) w1
          else if state = ''off'' then
            commit_states ch list_states
              (m\<lparr>output_state := Some (\<not> truthy (output_on_state m))\<rparr>) w1
          else (None, m, log_error (''Unrecognized state: '' @ state) w1)))"

text \<open>
  \<^verbatim>\<open>output_switch\<close>.  The first component of the result is the exception that reaches
  the caller: the outer \<^verbatim>\<open>except Exception\<close> logs whatever the body raises, so it is
  always \<open>None\<close>.  The lock is released in the \<^verbatim>\<open>finally\<close> clause whenever it was
  acquired.
\<close>

definition output_switch ::
  "string \<Rightarrow> output_module \<Rightarrow> world \<Rightarrow> py_error option \<times> output_module \<times> world" where
  "output_switch state m w =
     (case channel m of
        None \<Rightarrow> (None, m, log_error ''Output channel needs to be specified'' w)
      | Some ch \<Rightarrow>
          if lock_free w then
            (case switch_body state ch m (w\<lparr>trace := trace w @ [LockAcquire True]\<rparr>) of
               (r, m', w') \<Rightarrow>
                 (let w'' = w'\<lparr>trace := trace w' @ [LockRelease]\<rparr>
                  in case r of
                       None \<Rightarrow> (None, m', w'')
                     | Some e \<Rightarrow> (None, m', w''\<lparr>trace := trace w'' @ [LogException e]\<rparr>)))
          else (None, m, w\<lparr>trace := trace w @ [LockAcquire False]\<rparr>))"

text \<open>\<^verbatim>\<open>is_on\<close>: the stored \<^verbatim>\<open>output_state\<close> once the module is set up, \<^verbatim>\<open>None\<close> before.\<close>

definition is_on :: "output_module \<Rightarrow> bool option" where
  "is_on m = (if output_setup m then output_state m else None)"

subsection \<open>Observations on a trace\<close>

fun bus_writes :: "event list \<Rightarrow> int list" where
  "bus_writes [] = []"
| "bus_writes (BusWrite b # es) = b # bus_writes es"
| "bus_writes (e # es) = bus_writes es"

text \<open>The list of states the next call of \<^verbatim>\<open>output_switch\<close> would load.\<close>

definition stored_states :: "world \<Rightarrow> bool option list" where
  "stored_states w = fst (load_states w)"

text \<open>
  Channel index \<open>j\<close> is committed when the register bit of the channel, bit \<open>7 - j\<close>,
  is the truth value of its slot in the stored list.
\<close>

definition channel_committed :: "world \<Rightarrow> nat \<Rightarrow> bool" where
  "channel_committed w j = (bit (register w) (7 - j) = truthy (stored_states w ! j))"

text \<open>What loading the list of states adds to the trace.\<close>

definition load_events :: "world \<Rightarrow> event list" where
  "load_events w =
     (case state_file w of None \<Rightarrow> [FileExists False] | Some _ \<Rightarrow> [FileExists True, FileRead])"

subsection \<open>Example configurations\<close>

text \<open>
  A chip that was never written to: no state file, and the register at its power-on
  value, all pins high.
\<close>

definition fresh_world :: world where
  "fresh_world = \<lparr>state_file = None, register = 255, lock_free = True, file_fault = False,
     file_fault_written = None, bus_fault = False, trace = []\<rparr>"

text \<open>
  A module after \<^verbatim>\<open>setup_output\<close> bound it to a chip, for channel number \<open>ch\<close> and
  the given \<^verbatim>\<open>on_state\<close>, before any switch.
\<close>

definition configured :: "int \<Rightarrow> bool \<Rightarrow> output_module" where
  "configured ch on_state = \<lparr>channel = Some ch, output_state = None,
     output_on_state = Some on_state, output_setup = True\<rparr>"

text \<open>
  A chip whose register agrees with its state file: channels 1, 5 and 8 were switched to
  a high level, channel 3 to a low level, and the other four were never commanded.
\<close>

definition committed_world :: world where
  "committed_world = \<lparr>state_file = Some (encode_states
       [Some True, None, Some False, None, Some True, None, None, Some True]),
     register = 137, lock_free = True, file_fault = False, file_fault_written = None,
     bus_fault = False, trace = []\<rparr>"

text \<open>A state file that holds seven entries instead of eight.\<close>

definition short_record_world :: world where
  "short_record_world = fresh_world\<lparr>state_file := Some (encode_states
       [Some True, None, Some False, None, Some True, None, None])\<rparr>"

section \<open>Properties\<close>

subsection \<open>The state file encoding\<close>

lemma universal_newlines_Cons:
  "c \<noteq> CR \<Longrightarrow> universal_newlines (c # cs) = c # universal_newlines cs"
  by (cases cs) simp_all

lemma universal_newlines_encode: "universal_newlines (encode_states xs) = encode_states xs"
proof (induction xs)
  case Nil
  then show ?case by simp
next
  case (Cons x xs)
  then show ?case by (cases x rule: py_str.cases) (simp_all add: universal_newlines_Cons)
qed

lemma read_states_encode: "read_states (file_lines [] (encode_states xs)) = xs"
proof (induction xs)
  case Nil
  then show ?case by simp
next
  case (Cons x xs)
  then show ?case by (cases x rule: py_str.cases) simp_all
qed

lemma decode_encode: "decode_states (encode_states xs) = xs"
  by (simp add: decode_states_def universal_newlines_encode read_states_encode)

subsection \<open>The byte sent to the chip\<close>

lemma bit_or_one_shift: "bit (a OR push_bit m (1::int)) n \<longleftrightarrow> bit a n \<or> n = m"
  by (auto simp add: bit_or_iff bit_exp_iff)

lemma port_loop_bits:
  "0 \<le> i \<Longrightarrow> i + int (length xs) \<le> 8 \<Longrightarrow>
   \<exists>b. port_loop i xs acc = Inr b \<and>
       (\<forall>n. bit b n \<longleftrightarrow>
          bit acc n \<or> (\<exists>k<length xs. n = nat (7 - i - int k) \<and> truthy (xs ! k)))"
proof (induction xs arbitrary: i acc)
  case Nil
  then show ?case by simp
next
  case (Cons val rest)
  have i7: "i \<le> 7" using Cons.prems by simp
  have step: "0 \<le> i + 1" "i + 1 + int (length rest) \<le> 8" using Cons.prems by simp_all
  have shift: "\<And>k. 7 - i - int (Suc k) = 7 - (i + 1) - int k" by simp
  show ?case
  proof (cases "truthy val")
    case True
    from Cons.IH [OF step, of "acc OR push_bit (nat (7 - i)) 1"]
    obtain b where b: "port_loop (i + 1) rest (acc OR push_bit (nat (7 - i)) 1) = Inr b"
      and bits: "\<forall>n. bit b n \<longleftrightarrow> bit (acc OR push_bit (nat (7 - i)) 1) n \<or>
          (\<exists>k<length rest. n = nat (7 - (i + 1) - int k) \<and> truthy (rest ! k))"
      by blast
    have "port_loop i (val # rest) acc = Inr b" using True i7 b by simp
    moreover have "\<forall>n. bit b n \<longleftrightarrow> bit acc n \<or>
        (\<exists>k<length (val # rest). n = nat (7 - i - int k) \<and> truthy ((val # rest) ! k))"
      using bits True
      by (simp add: Ex_less_Suc2 bit_or_one_shift shift del: of_nat_Suc push_bit_of_1)
    ultimately show ?thesis by blast
  next
    case False
    from Cons.IH [OF step, of acc]
    obtain b where b: "port_loop (i + 1) rest acc = Inr b"
      and bits: "\<forall>n. bit b n \<longleftrightarrow> bit acc n \<or>
          (\<exists>k<length rest. n = nat (7 - (i + 1) - int k) \<and> truthy (rest ! k))"
      by blast
    have "port_loop i (val # rest) acc = Inr b" using False b by simp
    moreover have "\<forall>n. bit b n \<longleftrightarrow> bit acc n \<or>
        (\<exists>k<length (val # rest). n = nat (7 - i - int k) \<and> truthy ((val # rest) ! k))"
      using bits False by (simp add: Ex_less_Suc2 shift del: of_nat_Suc)
    ultimately show ?thesis by blast
  qed
qed

lemma port_loop_byte:
  assumes "length v = 8"
  shows "\<exists>b. port_loop 0 v 0 = Inr b \<and> (\<forall>i<8. bit b (7 - i) \<longleftrightarrow> truthy (v ! i)) \<and>
             (\<forall>n\<ge>8. \<not> bit b n)"
proof -
  from port_loop_bits [of 0 v 0] assms
  obtain b where b: "port_loop 0 v 0 = Inr b"
    and bits: "\<forall>n. bit b n \<longleftrightarrow> (\<exists>k<8. n = nat (7 - int k) \<and> truthy (v ! k))"
    by auto
  have "\<forall>i<8. bit b (7 - i) \<longleftrightarrow> truthy (v ! i)"
  proof (intro allI impI)
    fix i :: nat
    assume i: "i < 8"
    have "bit b (7 - i) \<longleftrightarrow> (\<exists>k<8. 7 - i = nat (7 - int k) \<and> truthy (v ! k))"
      using bits by blast
    also have "\<dots> \<longleftrightarrow> truthy (v ! i)"
    proof
      assume "\<exists>k<8. 7 - i = nat (7 - int k) \<and> truthy (v ! k)"
      then obtain k where k: "k < 8" "7 - i = nat (7 - int k)" "truthy (v ! k)" by blast
      from k(1,2) i have "k = i" by linarith
      with k(3) show "truthy (v ! i)" by simp
    next
      assume "truthy (v ! i)"
      moreover have "7 - i = nat (7 - int i)" using i by linarith
      ultimately show "\<exists>k<8. 7 - i = nat (7 - int k) \<and> truthy (v ! k)" using i by blast
    qed
    finally show "bit b (7 - i) \<longleftrightarrow> truthy (v ! i)" .
  qed
  moreover have "\<forall>n\<ge>8. \<not> bit b n"
  proof (intro allI impI)
    fix n :: nat
    assume "8 \<le> n"
    then have "\<not> (\<exists>k<8. n = nat (7 - int k) \<and> truthy (v ! k))" by auto
    then show "\<not> bit b n" using bits by blast
  qed
  ultimately show ?thesis using b by blast
qed

subsection \<open>The switch, step by step\<close>

lemma stored_states_trace [simp]: "stored_states (w\<lparr>trace := t\<rparr>) = stored_states w"
  by (simp add: stored_states_def load_states_def split: option.splits)

lemma load_events_trace [simp]: "load_events (w\<lparr>trace := t\<rparr>) = load_events w"
  by (simp add: load_events_def)

lemma load_states_eq:
  "load_states w = (stored_states w, w\<lparr>trace := trace w @ load_events w\<rparr>)"
  by (simp add: load_states_def stored_states_def load_events_def split: option.splits)

lemma stored_states_file: "state_file w = Some (encode_states xs) \<Longrightarrow> stored_states w = xs"
  by (simp add: stored_states_def load_states_def decode_encode)

lemma stored_states_absent: "state_file w = None \<Longrightarrow> stored_states w = replicate 8 None"
  by (simp add: stored_states_def load_states_def)

lemma bus_writes_append: "bus_writes (es @ fs) = bus_writes es @ bus_writes fs"
  by (induction es rule: bus_writes.induct) simp_all

lemma bus_writes_load_events [simp]: "bus_writes (load_events w) = []"
  by (simp add: load_events_def split: option.splits)

lemma list_setitem_channel:
  "1 \<le> ch \<Longrightarrow> ch \<le> 8 \<Longrightarrow> length xs = 8 \<Longrightarrow>
   list_setitem xs (ch - 1) v = Inr (xs[nat (ch - 1) := v])"
  by (simp add: list_setitem_def)

lemma commit_states_ok:
  assumes "1 \<le> ch" "ch \<le> 8" "length xs = 8" "\<not> file_fault w"
    and b: "port_loop 0 (xs[nat (ch - 1) := output_state m]) 0 = Inr b"
  shows "commit_states ch xs m w =
    (if bus_fault w then Some IOError else None, m,
     w\<lparr>state_file := Some (encode_states (xs[nat (ch - 1) := output_state m])),
       register := (if bus_fault w then register w else b),
       trace := trace w @
         [FileWrite (encode_states (xs[nat (ch - 1) := output_state m])), BusWrite b]\<rparr>)"
  using assms
  by (simp add: commit_states_def list_setitem_channel save_states_def port_set_def
      write_byte_def)

text \<open>
  The whole effect of a switch that gets as far as the chip: the lock is free, the stored
  list has eight entries, the state is \<^verbatim>\<open>'on'\<close> or \<^verbatim>\<open>'off'\<close> and the state file
  can be written.
\<close>

lemma output_switch_commit:
  assumes ch: "channel m = Some ch" "1 \<le> ch" "ch \<le> 8"
    and su: "output_setup m" and lk: "lock_free w" and ff: "\<not> file_fault w"
    and st: "state = ''on'' \<or> state = ''off''"
    and len: "length (stored_states w) = 8"
    and lvl: "lvl = (if state = ''on'' then output_on_state m
                     else Some (\<not> truthy (output_on_state m)))"
    and xs': "xs' = (stored_states w)[nat (ch - 1) := lvl]"
  shows "\<exists>b. port_loop 0 xs' 0 = Inr b \<and> (\<forall>i<8. bit b (7 - i) \<longleftrightarrow> truthy (xs' ! i)) \<and>
     output_switch state m w =
      (None, m\<lparr>output_state := lvl\<rparr>,
       w\<lparr>state_file := Some (encode_states xs'),
         register := (if bus_fault w then register w else b),
         trace := trace w @ [LockAcquire True] @ load_events w @
                  [FileWrite (encode_states xs'), BusWrite b, LockRelease] @
                  (if bus_fault w then [LogException IOError] else [])\<rparr>)"
proof -
  have "length xs' = 8" using len xs' by simp
  from port_loop_byte [OF this] obtain b where b: "port_loop 0 xs' 0 = Inr b"
    and bits: "\<forall>i<8. bit b (7 - i) \<longleftrightarrow> truthy (xs' ! i)" by blast
  let ?m1 = "m\<lparr>output_state := lvl\<rparr>"
  let ?w1 = "w\<lparr>trace := trace w @ [LockAcquire True] @ load_events w\<rparr>"
  have c: "commit_states ch (stored_states w) ?m1 ?w1 =
    (if bus_fault w then Some IOError else None, ?m1,
     ?w1\<lparr>state_file := Some (encode_states xs'),
       register := (if bus_fault w then register w else b),
       trace := trace ?w1 @ [FileWrite (encode_states xs'), BusWrite b]\<rparr>)"
    using commit_states_ok [of ch "stored_states w" ?w1 ?m1 b] ch(2,3) len ff b xs'
    by simp
  have body: "switch_body state ch m (w\<lparr>trace := trace w @ [LockAcquire True]\<rparr>) =
      commit_states ch (stored_states w) ?m1 ?w1"
    using su st len lvl by (auto simp add: switch_body_def load_states_eq)
  have "output_switch state m w =
      (None, ?m1,
       w\<lparr>state_file := Some (encode_states xs'),
         register := (if bus_fault w then register w else b),
         trace := trace w @ [LockAcquire True] @ load_events w @
                  [FileWrite (encode_states xs'), BusWrite b, LockRelease] @
                  (if bus_fault w then [LogException IOError] else [])\<rparr>)"
    using ch(1) lk c by (simp add: output_switch_def body)
  with b bits show ?thesis by blast
qed

text \<open>What a failing write of the state file leaves in the file, and in the trace.\<close>

lemma save_states_fault:
  "file_fault w \<Longrightarrow>
   save_states xs w =
     (Some IOError,
      w\<lparr>state_file := (case file_fault_written w of
                         None \<Rightarrow> state_file w
                       | Some n \<Rightarrow> Some (take n (encode_states xs))),
        trace := trace w @
          (case file_fault_written w of
             None \<Rightarrow> []
           | Some n \<Rightarrow> [FileWrite (take n (encode_states xs))]) @ [FileWriteFailed]\<rparr>)"
  by (simp add: save_states_def split: option.splits)

lemma output_switch_file_fault:
  assumes ch: "channel m = Some ch" "1 \<le> ch" "ch \<le> 8"
    and su: "output_setup m" and lk: "lock_free w" and ff: "file_fault w"
    and st: "state = ''on'' \<or> state = ''off''"
    and len: "length (stored_states w) = 8"
    and lvl: "lvl = (if state = ''on'' then output_on_state m
                     else Some (\<not> truthy (output_on_state m)))"
    and xs': "xs' = (stored_states w)[nat (ch - 1) := lvl]"
  shows "output_switch state m w =
      (None, m\<lparr>output_state := lvl\<rparr>,
       w\<lparr>state_file := (case file_fault_written w of
                          None \<Rightarrow> state_file w
                        | Some n \<Rightarrow> Some (take n (encode_states xs'))),
         trace := trace w @ [LockAcquire True] @ load_events w @
                  (case file_fault_written w of
                     None \<Rightarrow> []
                   | Some n \<Rightarrow> [FileWrite (take n (encode_states xs'))]) @
                  [FileWriteFailed, LockRelease, LogException IOError]\<rparr>)"
proof -
  let ?m1 = "m\<lparr>output_state := lvl\<rparr>"
  let ?w1 = "w\<lparr>trace := trace w @ [LockAcquire True] @ load_events w\<rparr>"
  have ff1: "file_fault ?w1" using ff by simp
  have sv: "save_states xs' ?w1 =
      (Some IOError,
       ?w1\<lparr>state_file := (case file_fault_written w of
                          None \<Rightarrow> state_file w
                        | Some n \<Rightarrow> Some (take n (encode_states xs'))),
         trace := trace ?w1 @
           (case file_fault_written w of
              None \<Rightarrow> []
            | Some n \<Rightarrow> [FileWrite (take n (encode_states xs'))]) @ [FileWriteFailed]\<rparr>)"
    using save_states_fault [OF ff1, of xs'] by (cases "file_fault_written w") simp_all
  have c: "commit_states ch (stored_states w) ?m1 ?w1 =
      (Some IOError, ?m1,
       ?w1\<lparr>state_file := (case file_fault_written w of
                          None \<Rightarrow> state_file w
                        | Some n \<Rightarrow> Some (take n (encode_states xs'))),
         trace := trace ?w1 @
           (case file_fault_written w of
              None \<Rightarrow> []
            | Some n \<Rightarrow> [FileWrite (take n (encode_states xs'))]) @ [FileWriteFailed]\<rparr>)"
    using ch(2,3) len xs' sv
    by (simp add: commit_states_def list_setitem_channel)
  have body: "switch_body state ch m (w\<lparr>trace := trace w @ [LockAcquire True]\<rparr>) =
      commit_states ch (stored_states w) ?m1 ?w1"
    using su st len lvl by (auto simp add: switch_body_def load_states_eq)
  show ?thesis using ch(1) lk c by (simp add: output_switch_def body)
qed

text \<open>Whatever happens, no exception leaves \<^verbatim>\<open>output_switch\<close>.\<close>

lemma output_switch_never_raises: "fst (output_switch state m w) = None"
  by (simp add: output_switch_def Let_def split: option.splits prod.splits)

lemma triple_collapse: "x = (fst x, fst (snd x), snd (snd x))"
  by simp

section \<open>The claims\<close>

text \<open>
  C1.  Writing a full port of eight values sends exactly one byte to the bus, packed most
  significant bit first: bit \<open>7 - i\<close> of the byte is set exactly when entry \<open>i\<close> of the
  list is true, and no higher bit is set.  When the bus does not fail, the setter returns
  normally and the register holds that byte.
\<close>

theorem C1_port_set_packs_msb_first:
  assumes "length v = 8"
  shows "\<exists>b. trace (snd (port_set v w)) = trace w @ [BusWrite b] \<and>
             (\<forall>i<8. bit b (7 - i) \<longleftrightarrow> truthy (v ! i)) \<and> (\<forall>n\<ge>8. \<not> bit b n) \<and>
             (\<not> bus_fault w \<longrightarrow>
                fst (port_set v w) = None \<and> register (snd (port_set v w)) = b)"
proof -
  from port_loop_byte [OF assms] obtain b where b: "port_loop 0 v 0 = Inr b"
    and bits: "\<forall>i<8. bit b (7 - i) \<longleftrightarrow> truthy (v ! i)" "\<forall>n\<ge>8. \<not> bit b n"
    by blast
  have "trace (snd (port_set v w)) = trace w @ [BusWrite b]"
    using assms b by (simp add: port_set_def write_byte_def Let_def)
  moreover have "\<not> bus_fault w \<longrightarrow>
      fst (port_set v w) = None \<and> register (snd (port_set v w)) = b"
    using assms b by (simp add: port_set_def write_byte_def Let_def)
  ultimately show ?thesis using bits by blast
qed

theorem C1_port_set_witness:
  "length [Some True, None, Some False, Some True, None, None, Some True, Some True] = 8 \<and>
   port_set [Some True, None, Some False, Some True, None, None, Some True, Some True]
     fresh_world = (None, fresh_world\<lparr>register := 147, trace := [BusWrite 147]\<rparr>)"
  using C1_port_set_packs_msb_first
    [of "[Some True, None, Some False, Some True, None, None, Some True, Some True]"
      fresh_world]
  by (simp add: port_set_def write_byte_def fresh_world_def)

text \<open>
  C2.  A switch of channel number \<open>ch\<close> (slot \<open>ch - 1\<close>) that succeeds changes slot
  \<open>ch - 1\<close> of the stored list and nothing else.  For every other channel \<open>j\<close> the
  stored slot is what it was and the register bit agrees with it after the call; so when
  the channel was committed before the call, its register bit is what it was, too.
\<close>

theorem C2_other_channels_keep_committed_state:
  assumes "channel m = Some ch" "1 \<le> ch" "ch \<le> 8" "output_setup m"
    and "lock_free w" "\<not> file_fault w" "\<not> bus_fault w"
    and "state = ''on'' \<or> state = ''off''"
    and "length (stored_states w) = 8"
    and "output_switch state m w = (r, m', w')"
    and "j < 8" "int j \<noteq> ch - 1"
  shows "stored_states w' = (stored_states w)[nat (ch - 1) := output_state m'] \<and>
         stored_states w' ! j = stored_states w ! j \<and>
         channel_committed w' j \<and>
         (channel_committed w j \<longrightarrow>
            bit (register w') (7 - j) = bit (register w) (7 - j))"
proof -
  define lvl where "lvl = (if state = ''on'' then output_on_state m
                           else Some (\<not> truthy (output_on_state m)))"
  define xs' where "xs' = (stored_states w)[nat (ch - 1) := lvl]"
  from output_switch_commit [OF assms(1-4) assms(5,6) assms(8,9) lvl_def xs'_def] assms(7,10)
  obtain b where bits: "\<forall>i<8. bit b (7 - i) \<longleftrightarrow> truthy (xs' ! i)"
    and m': "m' = m\<lparr>output_state := lvl\<rparr>"
    and sf: "state_file w' = Some (encode_states xs')"
    and reg: "register w' = b"
    by auto
  have st: "stored_states w' = xs'" using sf by (rule stored_states_file)
  have j: "nat (ch - 1) \<noteq> j" using assms(2,12) by linarith
  have same: "xs' ! j = stored_states w ! j" using j by (simp add: xs'_def)
  have "bit (register w') (7 - j) = truthy (stored_states w ! j)"
    using bits assms(11) reg same by simp
  then show ?thesis
    using st same m' by (simp add: channel_committed_def xs'_def)
qed

theorem C2_witness:
  "channel (configured 3 True) = Some 3 \<and> (1::int) \<le> 3 \<and> (3::int) \<le> 8 \<and>
   output_setup (configured 3 True) \<and> lock_free committed_world \<and>
   \<not> file_fault committed_world \<and> \<not> bus_fault committed_world \<and>
   length (stored_states committed_world) = 8 \<and>
   (4::nat) < 8 \<and> int 4 \<noteq> 3 - 1 \<and> channel_committed committed_world 4 \<and>
   stored_states (snd (snd (output_switch ''on'' (configured 3 True) committed_world))) ! 4 =
     stored_states committed_world ! 4 \<and>
   bit (register (snd (snd (output_switch ''on'' (configured 3 True) committed_world)))) (7 - 4) =
     bit (register committed_world) (7 - 4) \<and>
   channel_committed (snd (snd (output_switch ''on'' (configured 3 True) committed_world))) 4 \<and>
   stored_states (snd (snd (output_switch ''on'' (configured 3 True) committed_world))) =
     [Some True, None, Some True, None, Some True, None, None, Some True] \<and>
   register committed_world = 137 \<and>
   register (snd (snd (output_switch ''on'' (configured 3 True) committed_world))) = 169"
proof -
  have h: "channel (configured 3 True) = Some 3" "(1::int) \<le> 3" "(3::int) \<le> 8"
    "output_setup (configured 3 True)" "lock_free committed_world"
    "\<not> file_fault committed_world" "\<not> bus_fault committed_world"
    "''on'' = ''on'' \<or> ''on'' = ''off''"
    "length (stored_states committed_world) = 8"
    by code_simp+
  have j: "(4::nat) < 8" "int 4 \<noteq> 3 - 1"
    by code_simp+
  have c: "channel_committed committed_world 4"
    by code_simp
  have v: "stored_states (snd (snd (output_switch ''on'' (configured 3 True) committed_world))) =
     [Some True, None, Some True, None, Some True, None, None, Some True]"
    "register committed_world = 137"
    "register (snd (snd (output_switch ''on'' (configured 3 True) committed_world))) = 169"
    by code_simp+
  from C2_other_channels_keep_committed_state [OF h triple_collapse j] h j c v
  show ?thesis by simp
qed

text \<open>
  C3.  With \<^verbatim>\<open>on_state\<close> false, a successful switch to \<^verbatim>\<open>'on'\<close> stores \<^verbatim>\<open>False\<close> in
  the channel's slot and clears the channel's register bit.  \<^verbatim>\<open>is_on\<close> then returns
  that same level, \<^verbatim>\<open>False\<close>: it reports the level on the wire, not that the output is
  on.
\<close>

theorem C3_is_on_reports_physical_level:
  assumes "channel m = Some ch" "1 \<le> ch" "ch \<le> 8" "output_setup m"
    and "lock_free w" "\<not> file_fault w" "\<not> bus_fault w"
    and "length (stored_states w) = 8"
    and "output_on_state m = Some False"
    and "output_switch ''on'' m w = (r, m', w')"
  shows "stored_states w' ! nat (ch - 1) = Some False \<and>
         \<not> bit (register w') (7 - nat (ch - 1)) \<and>
         is_on m' = Some False"
proof -
  define xs' where "xs' = (stored_states w)[nat (ch - 1) := Some False]"
  have lvl: "Some False = (if ''on'' = ''on'' then output_on_state m
      else Some (\<not> truthy (output_on_state m)))"
    using assms(9) by simp
  have st: "''on'' = ''on'' \<or> ''on'' = ''off''" by simp
  from output_switch_commit [OF assms(1-4) assms(5,6) st assms(8) lvl xs'_def] assms(7,10)
  obtain b where bits: "\<forall>i<8. bit b (7 - i) \<longleftrightarrow> truthy (xs' ! i)"
    and m': "m' = m\<lparr>output_state := Some False\<rparr>"
    and sf: "state_file w' = Some (encode_states xs')"
    and reg: "register w' = b"
    by auto
  have s': "stored_states w' = xs'" using sf by (rule stored_states_file)
  have k: "nat (ch - 1) < 8" using assms(2,3) by linarith
  have slot: "xs' ! nat (ch - 1) = Some False" using k assms(8) by (simp add: xs'_def)
  have "\<not> bit b (7 - nat (ch - 1))" using bits k slot by simp
  then show ?thesis using s' slot reg m' assms(4) by (simp add: is_on_def)
qed

theorem C3_witness:
  "channel (configured 2 False) = Some 2 \<and> (1::int) \<le> 2 \<and> (2::int) \<le> 8 \<and>
   output_setup (configured 2 False) \<and> lock_free fresh_world \<and>
   \<not> file_fault fresh_world \<and> \<not> bus_fault fresh_world \<and>
   length (stored_states fresh_world) = 8 \<and>
   output_on_state (configured 2 False) = Some False \<and>
   stored_states (snd (snd (output_switch ''on'' (configured 2 False) fresh_world)))
     ! nat (2 - 1) = Some False \<and>
   \<not> bit (register (snd (snd (output_switch ''on'' (configured 2 False) fresh_world))))
     (7 - nat (2 - 1)) \<and>
   is_on (fst (snd (output_switch ''on'' (configured 2 False) fresh_world))) = Some False"
proof -
  have h: "channel (configured 2 False) = Some 2" "(1::int) \<le> 2" "(2::int) \<le> 8"
    "output_setup (configured 2 False)" "lock_free fresh_world"
    "\<not> file_fault fresh_world" "\<not> bus_fault fresh_world"
    "length (stored_states fresh_world) = 8"
    "output_on_state (configured 2 False) = Some False"
    by code_simp+
  from C3_is_on_reports_physical_level [OF h triple_collapse] h show ?thesis by simp
qed

text \<open>
  C4.  A chip with no state file, \<^verbatim>\<open>on_state\<close> true, and a switch to \<^verbatim>\<open>'on'\<close> of
  channel number 4, which is slot 3: the stored list is \<^verbatim>\<open>None\<close> everywhere but in
  slot 3, which holds \<^verbatim>\<open>True\<close>; one byte is sent to the chip, \<open>0b00010000\<close>.
\<close>

theorem C4_fresh_device_switch_on:
  assumes "state_file w = None" "lock_free w" "\<not> file_fault w" "\<not> bus_fault w"
    and "channel m = Some 4" "output_on_state m = Some True" "output_setup m"
    and "output_switch ''on'' m w = (r, m', w')"
  shows "stored_states w' = [None, None, None, Some True, None, None, None, None] \<and>
         bus_writes (trace w') = bus_writes (trace w) @ [16] \<and>
         register w' = 16"
proof -
  define xs' where "xs' = (stored_states w)[nat (4 - 1) := Some True]"
  have xs: "xs' = [None, None, None, Some True, None, None, None, None]"
    using assms(1) by (simp add: xs'_def stored_states_absent eval_nat_numeral)
  have b16: "port_loop 0 xs' 0 = Inr 16" unfolding xs by simp
  have lvl: "Some True = (if ''on'' = ''on'' then output_on_state m
      else Some (\<not> truthy (output_on_state m)))"
    using assms(6) by simp
  have st: "''on'' = ''on'' \<or> ''on'' = ''off''" by simp
  have len: "length (stored_states w) = 8" using assms(1) by (simp add: stored_states_absent)
  have c: "(1::int) \<le> 4" "(4::int) \<le> 8" by simp_all
  from output_switch_commit [OF assms(5) c assms(7) assms(2,3) st len lvl xs'_def]
    assms(4,8) b16
  have sf: "state_file w' = Some (encode_states xs')"
    and reg: "register w' = 16"
    and tr: "trace w' = trace w @ [LockAcquire True] @ load_events w @
                  [FileWrite (encode_states xs'), BusWrite 16, LockRelease]"
    by auto
  have "stored_states w' = xs'" using sf by (rule stored_states_file)
  then show ?thesis using xs reg tr by (simp add: bus_writes_append)
qed

theorem C4_witness:
  "state_file fresh_world = None \<and> lock_free fresh_world \<and> \<not> file_fault fresh_world \<and>
   \<not> bus_fault fresh_world \<and> channel (configured 4 True) = Some 4 \<and>
   output_on_state (configured 4 True) = Some True \<and> output_setup (configured 4 True) \<and>
   stored_states (snd (snd (output_switch ''on'' (configured 4 True) fresh_world))) =
     [None, None, None, Some True, None, None, None, None] \<and>
   bus_writes (trace (snd (snd (output_switch ''on'' (configured 4 True) fresh_world)))) =
     bus_writes (trace fresh_world) @ [16] \<and>
   register (snd (snd (output_switch ''on'' (configured 4 True) fresh_world))) = 16"
proof -
  have h: "state_file fresh_world = None" "lock_free fresh_world" "\<not> file_fault fresh_world"
    "\<not> bus_fault fresh_world" "channel (configured 4 True) = Some 4"
    "output_on_state (configured 4 True) = Some True" "output_setup (configured 4 True)"
    by code_simp+
  from C4_fresh_device_switch_on [OF h triple_collapse] h show ?thesis by simp
qed

text \<open>
  The slots of the channels that were never commanded are stored as \<^verbatim>\<open>None\<close>, not
  as \<^verbatim>\<open>False\<close>, whether the channel number is 4 or 3.
\<close>

theorem C4_counterexample:
  "stored_states (snd (snd (output_switch ''on'' (configured 4 True) fresh_world))) \<noteq>
     [Some False, Some False, Some False, Some True,
      Some False, Some False, Some False, Some False] \<and>
   stored_states (snd (snd (output_switch ''on'' (configured 3 True) fresh_world))) \<noteq>
     [Some False, Some False, Some False, Some True,
      Some False, Some False, Some False, Some False]"
  by code_simp

text \<open>
  C5.  When the state file exists and the list read from it does not have eight entries,
  \<^verbatim>\<open>output_switch\<close> logs an error and returns normally: nothing is raised, the module,
  the state file and the register are as before, and no byte is sent.
\<close>

theorem C5_short_record_logged_not_raised:
  assumes "channel m = Some ch" "output_setup m" "lock_free w"
    and "state_file w = Some content" "length (decode_states content) \<noteq> 8"
  shows "output_switch state m w =
    (None, m,
     w\<lparr>trace := trace w @ [LockAcquire True, FileExists True, FileRead,
         LogError ''State list does ot contain 8 elements'', LockRelease]\<rparr>)"
  using assms
  by (simp add: output_switch_def switch_body_def load_states_def log_error_def)

theorem C5_witness:
  "channel (configured 1 True) = Some 1 \<and> output_setup (configured 1 True) \<and>
   lock_free short_record_world \<and>
   state_file short_record_world = Some (encode_states
       [Some True, None, Some False, None, Some True, None, None]) \<and>
   length (decode_states (encode_states
       [Some True, None, Some False, None, Some True, None, None])) \<noteq> 8 \<and>
   output_switch ''on'' (configured 1 True) short_record_world =
    (None, configured 1 True,
     short_record_world\<lparr>trace := trace short_record_world @
        [LockAcquire True, FileExists True, FileRead,
         LogError ''State list does ot contain 8 elements'', LockRelease]\<rparr>)"
proof -
  have h: "channel (configured 1 True) = Some 1" "output_setup (configured 1 True)"
    "lock_free short_record_world"
    "state_file short_record_world = Some (encode_states
       [Some True, None, Some False, None, Some True, None, None])"
    "length (decode_states (encode_states
       [Some True, None, Some False, None, Some True, None, None])) \<noteq> 8"
    by code_simp+
  from C5_short_record_logged_not_raised [OF h, of "''on''"] h show ?thesis by simp
qed

text \<open>A state file of seven entries: the call returns, and no error reaches the caller.\<close>

theorem C5_counterexample:
  "length (stored_states short_record_world) = 7 \<and>
   fst (output_switch ''on'' (configured 1 True) short_record_world) = None"
  by code_simp

text \<open>
  C6.  When writing the state file or writing to the bus raises, \<^verbatim>\<open>output_switch\<close>
  still returns normally: the exception is logged after the lock was released, and the
  register is as before.  \<^verbatim>\<open>output_state\<close> was assigned before either write and keeps
  the requested level.  When it is the state file that fails, no byte is sent; the file
  is as before when \<^verbatim>\<open>open\<close> raised, and holds a prefix of the new content when a
  later step raised.  When it is the bus that fails, the file holds the new list.
\<close>

theorem C6_failed_write_logged_not_raised:
  assumes "channel m = Some ch" "1 \<le> ch" "ch \<le> 8" "output_setup m"
    and "lock_free w" "state = ''on'' \<or> state = ''off''"
    and "length (stored_states w) = 8"
    and "file_fault w \<or> bus_fault w"
    and "output_switch state m w = (r, m', w')"
  shows "r = None \<and>
         output_state m' = (if state = ''on'' then output_on_state m
                            else Some (\<not> truthy (output_on_state m))) \<and>
         register w' = register w \<and>
         (\<exists>es. trace w' = trace w @ es @ [LockRelease, LogException IOError]) \<and>
         (file_fault w \<longrightarrow>
            bus_writes (trace w') = bus_writes (trace w) \<and>
            state_file w' =
              (case file_fault_written w of
                 None \<Rightarrow> state_file w
               | Some n \<Rightarrow> Some (take n (encode_states
                   ((stored_states w)[nat (ch - 1) := output_state m']))))) \<and>
         (\<not> file_fault w \<longrightarrow>
            state_file w' =
              Some (encode_states ((stored_states w)[nat (ch - 1) := output_state m'])))"
proof (cases "file_fault w")
  case True
  define lvl where "lvl = (if state = ''on'' then output_on_state m
                           else Some (\<not> truthy (output_on_state m)))"
  define xs' where "xs' = (stored_states w)[nat (ch - 1) := lvl]"
  define fw where "fw = (case file_fault_written w of
      None \<Rightarrow> [] | Some n \<Rightarrow> [FileWrite (take n (encode_states xs'))])"
  from output_switch_file_fault [OF assms(1-5) True assms(6,7) lvl_def xs'_def] assms(9)
  have r: "r = None"
    and m': "m' = m\<lparr>output_state := lvl\<rparr>"
    and w': "w' = w\<lparr>state_file := (case file_fault_written w of
                          None \<Rightarrow> state_file w
                        | Some n \<Rightarrow> Some (take n (encode_states xs'))),
         trace := trace w @ [LockAcquire True] @ load_events w @ fw @
                  [FileWriteFailed, LockRelease, LogException IOError]\<rparr>"
    by (simp_all add: fw_def)
  have "trace w' = trace w @ ([LockAcquire True] @ load_events w @ fw @ [FileWriteFailed]) @
      [LockRelease, LogException IOError]"
    by (simp add: w')
  then have ex: "\<exists>es. trace w' = trace w @ es @ [LockRelease, LogException IOError]"
    by blast
  have "bus_writes fw = []" by (simp add: fw_def split: option.splits)
  then have bw: "bus_writes (trace w') = bus_writes (trace w)"
    by (simp add: w' bus_writes_append)
  have sf: "state_file w' = (case file_fault_written w of
      None \<Rightarrow> state_file w | Some n \<Rightarrow> Some (take n (encode_states xs')))"
    by (simp add: w')
  have os: "output_state m' = lvl" by (simp add: m')
  have reg: "register w' = register w" by (simp add: w')
  have xs: "xs' = (stored_states w)[nat (ch - 1) := output_state m']"
    by (simp add: xs'_def os)
  show ?thesis using r os reg ex bw sf [unfolded xs] True by (simp add: lvl_def)
next
  case False
  then have bf: "bus_fault w" using assms(8) by simp
  define lvl where "lvl = (if state = ''on'' then output_on_state m
                           else Some (\<not> truthy (output_on_state m)))"
  define xs' where "xs' = (stored_states w)[nat (ch - 1) := lvl]"
  from output_switch_commit [OF assms(1-5) False assms(6,7) lvl_def xs'_def] assms(9) bf
  obtain b where r: "r = None"
    and m': "m' = m\<lparr>output_state := lvl\<rparr>"
    and reg: "register w' = register w"
    and sf: "state_file w' = Some (encode_states xs')"
    and tr: "trace w' = trace w @ [LockAcquire True] @ load_events w @
        [FileWrite (encode_states xs'), BusWrite b, LockRelease, LogException IOError]"
    by auto
  have "trace w' = trace w @ ([LockAcquire True] @ load_events w @
        [FileWrite (encode_states xs'), BusWrite b]) @
         [LockRelease, LogException IOError]"
    by (simp add: tr)
  then have ex: "\<exists>es. trace w' = trace w @ es @ [LockRelease, LogException IOError]"
    by blast
  have os: "output_state m' = lvl" by (simp add: m')
  show ?thesis using r os reg ex sf False by (simp add: xs'_def lvl_def)
qed

theorem C6_witness:
  "channel (configured 1 True) = Some 1 \<and> (1::int) \<le> 1 \<and> (1::int) \<le> 8 \<and>
   output_setup (configured 1 True) \<and>
   lock_free (fresh_world\<lparr>file_fault := True, file_fault_written := Some 7\<rparr>) \<and>
   length (stored_states (fresh_world\<lparr>file_fault := True, file_fault_written := Some 7\<rparr>)) = 8 \<and>
   file_fault (fresh_world\<lparr>file_fault := True, file_fault_written := Some 7\<rparr>) \<and>
   fst (output_switch ''on'' (configured 1 True)
       (fresh_world\<lparr>file_fault := True, file_fault_written := Some 7\<rparr>)) = None \<and>
   register (snd (snd (output_switch ''on'' (configured 1 True)
       (fresh_world\<lparr>file_fault := True, file_fault_written := Some 7\<rparr>)))) =
     register (fresh_world\<lparr>file_fault := True, file_fault_written := Some 7\<rparr>) \<and>
   output_state (fst (snd (output_switch ''on'' (configured 1 True)
       (fresh_world\<lparr>file_fault := True, file_fault_written := Some 7\<rparr>)))) = Some True \<and>
   state_file (snd (snd (output_switch ''on'' (configured 1 True)
       (fresh_world\<lparr>file_fault := True, file_fault_written := Some 7\<rparr>)))) =
     Some (''True'' @ [LF] @ ''No'') \<and>
   bus_writes (trace (snd (snd (output_switch ''on'' (configured 1 True)
       (fresh_world\<lparr>file_fault := True, file_fault_written := Some 7\<rparr>))))) = [] \<and>
   trace (snd (snd (output_switch ''on'' (configured 1 True)
       (fresh_world\<lparr>file_fault := True, file_fault_written := Some 7\<rparr>)))) =
     [LockAcquire True, FileExists False, FileWrite (''True'' @ [LF] @ ''No''),
      FileWriteFailed, LockRelease, LogException IOError]"
proof -
  let ?w = "fresh_world\<lparr>file_fault := True, file_fault_written := Some 7\<rparr>"
  have h: "channel (configured 1 True) = Some 1" "(1::int) \<le> 1" "(1::int) \<le> 8"
    "output_setup (configured 1 True)" "lock_free ?w"
    "''on'' = ''on'' \<or> ''on'' = ''off''"
    "length (stored_states ?w) = 8"
    "file_fault ?w \<or> bus_fault ?w"
    by code_simp+
  have f: "file_fault ?w" by code_simp
  from C6_failed_write_logged_not_raised [OF h triple_collapse]
  have t: "fst (output_switch ''on'' (configured 1 True) ?w) = None"
    "register (snd (snd (output_switch ''on'' (configured 1 True) ?w))) = register ?w"
    by blast+
  have v: "output_state (fst (snd (output_switch ''on'' (configured 1 True) ?w))) = Some True"
    "state_file (snd (snd (output_switch ''on'' (configured 1 True) ?w))) =
       Some (''True'' @ [LF] @ ''No'')"
    "bus_writes (trace (snd (snd (output_switch ''on'' (configured 1 True) ?w)))) = []"
    "trace (snd (snd (output_switch ''on'' (configured 1 True) ?w))) =
     [LockAcquire True, FileExists False, FileWrite (''True'' @ [LF] @ ''No''),
      FileWriteFailed, LockRelease, LogException IOError]"
    by code_simp+
  show ?thesis by (intro conjI) (fact h f t v)+
qed

text \<open>
  A module whose last level was \<^verbatim>\<open>False\<close>, and a bus that fails: no error reaches the
  caller, and \<^verbatim>\<open>is_on\<close> changes to \<^verbatim>\<open>True\<close>.
\<close>

theorem C6_counterexample:
  "is_on ((configured 1 True)\<lparr>output_state := Some False\<rparr>) = Some False \<and>
   fst (output_switch ''on'' ((configured 1 True)\<lparr>output_state := Some False\<rparr>)
          (fresh_world\<lparr>bus_fault := True\<rparr>)) = None \<and>
   is_on (fst (snd (output_switch ''on'' ((configured 1 True)\<lparr>output_state := Some False\<rparr>)
          (fresh_world\<lparr>bus_fault := True\<rparr>)))) = Some True"
  by code_simp

text \<open>
  C7.  Writing a list of states to the state file format, one token per line, and reading
  it back gives the same list, whatever its length and entries.
\<close>

theorem C7_state_file_roundtrip: "decode_states (encode_states xs) = xs"
  by (rule decode_encode)

theorem C7_state_file_roundtrip_witness:
  "decode_states (encode_states
     [None, Some True, Some False, None, Some True, Some True, Some False, None]) =
   [None, Some True, Some False, None, Some True, Some True, Some False, None]"
  by (rule C7_state_file_roundtrip)

text \<open>
  C8.  When the lock is not acquired, \<^verbatim>\<open>output_switch\<close> returns normally and does
  nothing else: nothing is raised or logged, the module is unchanged, the state file is
  neither read nor written and no byte is sent.
\<close>

theorem C8_lock_timeout_returns_quietly:
  assumes "channel m = Some ch" "\<not> lock_free w"
  shows "output_switch state m w = (None, m, w\<lparr>trace := trace w @ [LockAcquire False]\<rparr>)"
  using assms by (simp add: output_switch_def)

theorem C8_witness:
  "channel (configured 1 True) = Some 1 \<and> \<not> lock_free (fresh_world\<lparr>lock_free := False\<rparr>) \<and>
   output_switch ''on'' (configured 1 True) (fresh_world\<lparr>lock_free := False\<rparr>) =
     (None, configured 1 True,
      fresh_world\<lparr>lock_free := False, trace := [LockAcquire False]\<rparr>)"
proof -
  have h: "channel (configured 1 True) = Some 1" "\<not> lock_free (fresh_world\<lparr>lock_free := False\<rparr>)"
    by code_simp+
  have t: "trace (fresh_world\<lparr>lock_free := False\<rparr>) = []" by code_simp
  from C8_lock_timeout_returns_quietly [OF h, of "''on''"] h t show ?thesis by simp
qed

text \<open>A lock that cannot be acquired: the call returns, and no error reaches the caller.\<close>

theorem C8_counterexample:
  "\<not> lock_free (fresh_world\<lparr>lock_free := False\<rparr>) \<and>
   fst (output_switch ''on'' (configured 1 True) (fresh_world\<lparr>lock_free := False\<rparr>)) = None"
  by code_simp

text \<open>
  C9.  A switch that reaches the chip sends exactly one byte, and in it the bit of every
  other channel whose loaded slot is \<^verbatim>\<open>None\<close> is 0.
\<close>

theorem C9_unknown_slots_written_low:
  assumes "channel m = Some ch" "1 \<le> ch" "ch \<le> 8" "output_setup m"
    and "lock_free w" "\<not> file_fault w"
    and "state = ''on'' \<or> state = ''off''"
    and "length (stored_states w) = 8"
    and "output_switch state m w = (r, m', w')"
    and "j < 8" "int j \<noteq> ch - 1" "stored_states w ! j = None"
  shows "\<exists>b. bus_writes (trace w') = bus_writes (trace w) @ [b] \<and> \<not> bit b (7 - j)"
proof -
  define lvl where "lvl = (if state = ''on'' then output_on_state m
                           else Some (\<not> truthy (output_on_state m)))"
  define xs' where "xs' = (stored_states w)[nat (ch - 1) := lvl]"
  from output_switch_commit [OF assms(1-4) assms(5,6) assms(7,8) lvl_def xs'_def] assms(9)
  obtain b where bits: "\<forall>i<8. bit b (7 - i) \<longleftrightarrow> truthy (xs' ! i)"
    and tr: "trace w' = trace w @ [LockAcquire True] @ load_events w @
                  [FileWrite (encode_states xs'), BusWrite b, LockRelease] @
                  (if bus_fault w then [LogException IOError] else [])"
    by auto
  have j: "nat (ch - 1) \<noteq> j" using assms(2,11) by linarith
  have "xs' ! j = None" using j assms(12) by (simp add: xs'_def)
  then have "\<not> bit b (7 - j)" using bits assms(10) by simp
  moreover have "bus_writes (trace w') = bus_writes (trace w) @ [b]"
    by (simp add: tr bus_writes_append)
  ultimately show ?thesis by blast
qed

theorem C9_witness:
  "channel (configured 3 True) = Some 3 \<and> (1::int) \<le> 3 \<and> (3::int) \<le> 8 \<and>
   output_setup (configured 3 True) \<and> lock_free committed_world \<and>
   \<not> file_fault committed_world \<and> length (stored_states committed_world) = 8 \<and>
   (5::nat) < 8 \<and> int 5 \<noteq> 3 - 1 \<and> stored_states committed_world ! 5 = None \<and>
   bus_writes (trace (snd (snd (output_switch ''on'' (configured 3 True) committed_world)))) =
     [169] \<and>
   \<not> bit (169::int) (7 - 5)"
proof -
  have h: "channel (configured 3 True) = Some 3" "(1::int) \<le> 3" "(3::int) \<le> 8"
    "output_setup (configured 3 True)" "lock_free committed_world"
    "\<not> file_fault committed_world"
    "''on'' = ''on'' \<or> ''on'' = ''off''"
    "length (stored_states committed_world) = 8"
    by code_simp+
  have j: "(5::nat) < 8" "int 5 \<noteq> 3 - 1" "stored_states committed_world ! 5 = None"
    by code_simp+
  have v: "bus_writes (trace committed_world) = []"
    "bus_writes (trace (snd (snd (output_switch ''on'' (configured 3 True) committed_world)))) =
     [169]" "\<not> bit (169::int) (7 - 5)" by code_simp+
  from C9_unknown_slots_written_low [OF h triple_collapse j] h j v show ?thesis by simp
qed

text \<open>
  C10.  For a state other than \<^verbatim>\<open>'on'\<close> and \<^verbatim>\<open>'off'\<close>, \<^verbatim>\<open>output_switch\<close> writes
  nothing: it sends no byte, leaves the register and the state file as they were, and
  leaves the module, and so what \<^verbatim>\<open>is_on\<close> returns, unchanged.  It does not return
  at once, though: with a channel, the lock free, the module set up and a list of eight
  states, it takes the lock, loads the list from the state file, logs the unrecognized
  state and releases the lock.
\<close>

theorem C10_unrecognized_state_changes_nothing:
  assumes "state \<noteq> ''on''" "state \<noteq> ''off''"
    and "output_switch state m w = (r, m', w')"
  shows "bus_writes (trace w') = bus_writes (trace w) \<and> register w' = register w \<and>
         state_file w' = state_file w \<and> m' = m \<and> is_on m' = is_on m \<and>
         (channel m \<noteq> None \<and> lock_free w \<and> output_setup m \<and>
          length (stored_states w) = 8 \<longrightarrow>
            trace w' = trace w @ [LockAcquire True] @ load_events w @
              [LogError (''Unrecognized state: '' @ state), LockRelease])"
proof -
  have writes: "bus_writes (trace w') = bus_writes (trace w) \<and> register w' = register w \<and>
         state_file w' = state_file w \<and> m' = m \<and> is_on m' = is_on m"
    using assms
    by (auto simp add: output_switch_def switch_body_def load_states_def log_error_def
        bus_writes_append Let_def split: option.splits if_splits)
  have reads: "channel m \<noteq> None \<and> lock_free w \<and> output_setup m \<and>
          length (stored_states w) = 8 \<longrightarrow>
            trace w' = trace w @ [LockAcquire True] @ load_events w @
              [LogError (''Unrecognized state: '' @ state), LockRelease]"
    using assms
    by (auto simp add: output_switch_def switch_body_def load_states_eq log_error_def)
  from writes reads show ?thesis by blast
qed

theorem C10_witness:
  "''toggle'' \<noteq> ''on'' \<and> ''toggle'' \<noteq> ''off'' \<and>
   bus_writes (trace (snd (snd (output_switch ''toggle'' (configured 3 True) committed_world)))) =
     bus_writes (trace committed_world) \<and>
   register (snd (snd (output_switch ''toggle'' (configured 3 True) committed_world))) =
     register committed_world \<and>
   state_file (snd (snd (output_switch ''toggle'' (configured 3 True) committed_world))) =
     state_file committed_world \<and>
   fst (snd (output_switch ''toggle'' (configured 3 True) committed_world)) =
     configured 3 True \<and>
   trace (snd (snd (output_switch ''toggle'' (configured 3 True) committed_world))) =
     trace committed_world @ [LockAcquire True] @ load_events committed_world @
       [LogError (''Unrecognized state: '' @ ''toggle''), LockRelease]"
proof -
  have h: "''toggle'' \<noteq> ''on''" "''toggle'' \<noteq> ''off''" by simp_all
  have c: "channel (configured 3 True) \<noteq> None \<and> lock_free committed_world \<and>
    output_setup (configured 3 True) \<and> length (stored_states committed_world) = 8"
    by code_simp
  from C10_unrecognized_state_changes_nothing
    [of "''toggle''" "configured 3 True" committed_world, OF h triple_collapse] c
  have t: "bus_writes (trace (snd (snd
        (output_switch ''toggle'' (configured 3 True) committed_world)))) =
      bus_writes (trace committed_world)"
    "register (snd (snd (output_switch ''toggle'' (configured 3 True) committed_world))) =
      register committed_world"
    "state_file (snd (snd (output_switch ''toggle'' (configured 3 True) committed_world))) =
      state_file committed_world"
    "fst (snd (output_switch ''toggle'' (configured 3 True) committed_world)) =
      configured 3 True"
    "trace (snd (snd (output_switch ''toggle'' (configured 3 True) committed_world))) =
      trace committed_world @ [LockAcquire True] @ load_events committed_world @
        [LogError (''Unrecognized state: '' @ ''toggle''), LockRelease]"
    by blast+
  show ?thesis by (intro conjI) (fact h t)+
qed

text \<open>
  The same call is not free of input and output: the lock is taken, the state file is
  read and an error is logged.
\<close>

theorem C10_counterexample:
  "trace (snd (snd (output_switch ''toggle'' (configured 3 True) committed_world))) =
     [LockAcquire True, FileExists True, FileRead,
      LogError ''Unrecognized state: toggle'', LockRelease] \<and>
   FileRead \<in> set (trace (snd (snd
     (output_switch ''toggle'' (configured 3 True) committed_world))))"
  by code_simp

end
